theory Spec2Isabelle
  imports Main
begin

section \<open>JavaScript values and objects\<close>

text \<open>
  The request helper of \<^verbatim>\<open>src/api.ts\<close> works on plain JavaScript objects. A property of
  an object is in one of three states, and the object spread of \<^verbatim>\<open>requestJson\<close> tells
  them apart: the key is absent, the key is present with the value \<^verbatim>\<open>undefined\<close>, or the
  key is present with a defined value.
\<close>

datatype 'a field = Absent | Undefined | Value 'a

text \<open>
  Untyped payloads (the request body, rejection reasons, parsed JSON) are defined
  JavaScript values: JSON-like trees, \<open>JError\<close> for an Error object carrying its
  message, and \<open>JBigInt\<close> for a BigInt, the value that \<^verbatim>\<open>JSON.stringify\<close> refuses.
  Numbers are the integers; status codes, range bounds and durations are integers
  throughout. Values are finite trees: an object that contains itself, which
  \<^verbatim>\<open>JSON.stringify\<close> refuses as well, has no term here.
\<close>

datatype jsval =
    JNull
  | JBool bool
  | JNum int
  | JStr string
  | JArr "jsval list"
  | JObj "(string \<times> jsval) list"
  | JError string
  | JBigInt int

text \<open>Truthiness, as \<^verbatim>\<open>if (v)\<close> and \<^verbatim>\<open>v && ...\<close> test it.\<close>

fun truthy :: "jsval \<Rightarrow> bool" where
  "truthy JNull = False"
| "truthy (JBool b) = b"
| "truthy (JNum n) = (n \<noteq> 0)"
| "truthy (JStr s) = (s \<noteq> [])"
| "truthy (JArr xs) = True"
| "truthy (JObj kvs) = True"
| "truthy (JError m) = True"
| "truthy (JBigInt n) = (n \<noteq> 0)"

text \<open>Reading a property (or destructuring it) gives \<^verbatim>\<open>undefined\<close> for an absent key.\<close>

definition read :: "'a field \<Rightarrow> 'a field" where
  "read f = (case f of Absent \<Rightarrow> Undefined | Undefined \<Rightarrow> Undefined | Value v \<Rightarrow> Value v)"

text \<open>Truthiness of a property holding a boolean, a number, or any value.\<close>

definition truthyBool :: "bool field \<Rightarrow> bool" where
  "truthyBool f = (case f of Value b \<Rightarrow> b | _ \<Rightarrow> False)"

definition truthyNum :: "int field \<Rightarrow> bool" where
  "truthyNum f = (case f of Value n \<Rightarrow> n \<noteq> 0 | _ \<Rightarrow> False)"

definition truthyVal :: "jsval field \<Rightarrow> bool" where
  "truthyVal f = (case f of Value v \<Rightarrow> truthy v | _ \<Rightarrow> False)"

section \<open>The data model of api.ts\<close>

datatype networkError = Timeout | Other

datatype httpType = GET | POST | PUT | PATCH | DELETE

record IExtraHeader =
  key :: string
  hvalue :: string

record IValidStatusCode =
  validStatusCodes :: "int list field"
  validStatusCodeStart :: "int field"
  validStatusCodeEnd :: "int field"

text \<open>
  \<^verbatim>\<open>IRequestParams<B> = IRequestBasicParams<B> & IValidStatusCode\<close>: the record extends
  \<open>IValidStatusCode\<close> by the basic parameters. The interface declares neither
  \<^verbatim>\<open>timeout\<close> nor any other key, but TypeScript accepts an object with more properties
  than its declared type, and \<^verbatim>\<open>requestJson\<close> reads \<^verbatim>\<open>timeout\<close> from the merged object:
  \<open>timeout\<close> is the property of that name, and \<open>otherKeys\<close> holds the own properties
  under names the function never reads (looked up with \<open>map_of\<close>).
\<close>

record IRequestParams = IValidStatusCode +
  body :: "jsval field"
  extraHeaders :: "IExtraHeader list field"
  "method" :: "httpType field"
  jsonRequest :: "bool field"
  jsonResponse :: "bool field"
  url :: "string field"
  timeout :: "int field"
  otherKeys :: "(string \<times> jsval) list"

text \<open>
  A \<^verbatim>\<open>Response\<close> of the transport: its status and what \<^verbatim>\<open>response.json()\<close> settles
  with (\<open>Inl\<close>: rejected with that reason, \<open>Inr\<close>: fulfilled with the parsed body).
\<close>

record response =
  status :: int
  json :: "jsval + jsval"

text \<open>
  What \<open>data\<close> and \<open>errorData\<close> can hold: a value (parsed JSON, or a rejection reason),
  or the raw response object when \<^verbatim>\<open>jsonResponse\<close> is off.
\<close>

datatype payload = Val jsval | Resp response

record IJsonStatus =
  data :: "payload option"
  errorData :: "payload option"
  networkError :: "networkError option"
  statusCode :: "int option"

section \<open>Status-code validation\<close>

text \<open>
  \<^verbatim>\<open>validStatusCodes.find(sc => sc === statusCode) !== undefined\<close> on an array of
  numbers: \<open>find\<close> gives the first element equal to the code, if any.
\<close>

definition isValidStatusCode :: "int \<Rightarrow> IValidStatusCode \<Rightarrow> bool" where
  "isValidStatusCode sc validation =
     (case validStatusCodes validation of
        Value codes \<Rightarrow> List.find (\<lambda>c. c = sc) codes \<noteq> None
      | _ \<Rightarrow>
        if truthyNum (validStatusCodeStart validation) \<and> truthyNum (validStatusCodeEnd validation)
        then (case (validStatusCodeStart validation, validStatusCodeEnd validation) of
                (Value s, Value e) \<Rightarrow> sc \<ge> s \<and> sc \<le> e
              | _ \<Rightarrow> False)
        else False)"

definition isNetworkError :: "jsval \<Rightarrow> bool" where
  "isNetworkError err = (err = JStr ''timeout'' \<or> err = JStr ''other'')"

section \<open>The platform: Headers, JSON, fetch and the timer\<close>

text \<open>
  \<^verbatim>\<open>Headers.append(name, value)\<close> of the Fetch standard: the value is normalised (leading
  and trailing HTTP whitespace removed); a \<^verbatim>\<open>TypeError\<close> is thrown unless the name is an
  HTTP token (one or more \<open>tchar\<close>) and the value holds no NUL, LF or CR; otherwise the
  pair is added at the end of the header list. Strings are byte strings here: a name or
  value with a code unit above 0xFF, which \<^verbatim>\<open>Headers.append\<close> refuses with a
  \<^verbatim>\<open>TypeError\<close> too, has no term, so \<open>headers_append\<close> refuses no more than the
  platform does.
\<close>

type_synonym headers = "(string \<times> string) list"

definition tchar :: "char \<Rightarrow> bool" where
  "tchar c =
     (c \<in> set ''abcdefghijklmnopqrstuvwxyz'' \<or> c \<in> set ''ABCDEFGHIJKLMNOPQRSTUVWXYZ''
      \<or> c \<in> set ''0123456789'' \<or> c \<in> set ''!#$%&*+-.^_|~''
      \<or> c = CHR 0x27 \<or> c = CHR 0x60)"

definition isHeaderName :: "string \<Rightarrow> bool" where
  "isHeaderName n = (n \<noteq> [] \<and> list_all tchar n)"

definition httpWhitespace :: "char \<Rightarrow> bool" where
  "httpWhitespace c = (c = CHR 0x09 \<or> c = CHR 0x0A \<or> c = CHR 0x0D \<or> c = CHR 0x20)"

definition normalizeValue :: "string \<Rightarrow> string" where
  "normalizeValue v = rev (dropWhile httpWhitespace (rev (dropWhile httpWhitespace v)))"

definition isHeaderValue :: "string \<Rightarrow> bool" where
  "isHeaderValue v = list_all (\<lambda>c. c \<noteq> CHR 0x00 \<and> c \<noteq> CHR 0x0A \<and> c \<noteq> CHR 0x0D) v"

definition headers_append :: "headers \<Rightarrow> string \<Rightarrow> string \<Rightarrow> jsval + headers" where
  "headers_append hs name v =
     (if isHeaderName name \<and> isHeaderValue (normalizeValue v)
      then Inr (hs @ [(name, normalizeValue v)])
      else Inl (JError ''TypeError''))"

text \<open>
  What \<^verbatim>\<open>requestJson\<close> hands to the platform: the two arguments of \<^verbatim>\<open>fetch\<close> and the
  duration given to \<^verbatim>\<open>setTimeout\<close>.
\<close>

record RequestInit =
  init_method :: "httpType field"
  init_headers :: headers
  init_body :: "string field"

record call =
  fetch_url :: "string field"
  fetch_init :: RequestInit
  timer_ms :: "int field"

text \<open>
  \<^verbatim>\<open>JSON.stringify(v)\<close> throws a \<^verbatim>\<open>TypeError\<close> when it meets a BigInt anywhere in
  \<open>v\<close>; otherwise it returns the JSON text, which the platform computes.
\<close>

fun hasBigInt :: "jsval \<Rightarrow> bool" where
  "hasBigInt (JBigInt n) = True"
| "hasBigInt (JArr xs) = list_ex hasBigInt xs"
| "hasBigInt (JObj kvs) = list_ex (\<lambda>kv. hasBigInt (snd kv)) kvs"
| "hasBigInt JNull = False"
| "hasBigInt (JBool b) = False"
| "hasBigInt (JNum n) = False"
| "hasBigInt (JStr s) = False"
| "hasBigInt (JError m) = False"

definition serialize :: "(jsval \<Rightarrow> string) \<Rightarrow> jsval \<Rightarrow> jsval + string" where
  "serialize stringify v =
     (if hasBigInt v then Inl (JError ''TypeError'') else Inr (stringify v))"

text \<open>
  What \<^verbatim>\<open>Promise.race\<close> sees first: the timer's callback, or the promise of \<^verbatim>\<open>fetch\<close>
  settling either way. The platform decides it from the call; it also serialises JSON.
\<close>

datatype settled = TimerFired | FetchRejected jsval | FetchResolved response

record platform =
  JSON_stringify :: "jsval \<Rightarrow> string"
  settle :: "call \<Rightarrow> settled"

text \<open>A settled promise: \<open>Inl\<close> the rejection reason, \<open>Inr\<close> the fulfilment value.\<close>

type_synonym 'a promise = "jsval + 'a"

definition race :: "settled \<Rightarrow> response promise" where
  "race s =
     (case s of
        TimerFired \<Rightarrow> Inl (JStr ''timeout'')
      | FetchRejected err \<Rightarrow> Inl err
      | FetchResolved res \<Rightarrow> Inr res)"

text \<open>
  \<^verbatim>\<open>.then\<close> and \<^verbatim>\<open>.catch\<close>. The callbacks of \<^verbatim>\<open>requestJson\<close> mutate the one
  \<^verbatim>\<open>statusResponse\<close> object, so a callback takes the object and returns it updated, with
  the promise it returns.
\<close>

definition thenP ::
  "IJsonStatus \<times> 'a promise \<Rightarrow> ('a \<Rightarrow> IJsonStatus \<Rightarrow> IJsonStatus \<times> 'b promise)
     \<Rightarrow> IJsonStatus \<times> 'b promise" where
  "thenP p f = (case p of (st, Inl err) \<Rightarrow> (st, Inl err) | (st, Inr v) \<Rightarrow> f v st)"

definition catchP ::
  "IJsonStatus \<times> 'a promise \<Rightarrow> (jsval \<Rightarrow> IJsonStatus \<Rightarrow> IJsonStatus \<times> 'a promise)
     \<Rightarrow> IJsonStatus \<times> 'a promise" where
  "catchP p h = (case p of (st, Inl err) \<Rightarrow> h err st | (st, Inr v) \<Rightarrow> (st, Inr v))"

section \<open>requestJson\<close>

definition defaultRequestParams :: IRequestParams where
  "defaultRequestParams =
     \<lparr>validStatusCodes = Absent, validStatusCodeStart = Value 200,
      validStatusCodeEnd = Value 299, body = Absent, extraHeaders = Absent,
      method = Value GET, jsonRequest = Value True, jsonResponse = Value True,
      url = Absent, timeout = Value 10000, otherKeys = []\<rparr>"

text \<open>
  The object spread \<^verbatim>\<open>{ ...a, ...b }\<close>: every own key of \<open>b\<close> goes into the result with
  \<open>b\<close>'s value, also when that value is \<^verbatim>\<open>undefined\<close>; the other keys keep \<open>a\<close>'s value.
  In \<open>otherKeys\<close> the entries of \<open>b\<close> come first, so that a lookup finds them first.
\<close>

definition override :: "'a field \<Rightarrow> 'a field \<Rightarrow> 'a field" where
  "override d c = (case c of Absent \<Rightarrow> d | Undefined \<Rightarrow> Undefined | Value v \<Rightarrow> Value v)"

definition spread :: "IRequestParams \<Rightarrow> IRequestParams \<Rightarrow> IRequestParams" where
  "spread a b =
     \<lparr>validStatusCodes = override (validStatusCodes a) (validStatusCodes b),
      validStatusCodeStart = override (validStatusCodeStart a) (validStatusCodeStart b),
      validStatusCodeEnd = override (validStatusCodeEnd a) (validStatusCodeEnd b),
      body = override (body a) (body b),
      extraHeaders = override (extraHeaders a) (extraHeaders b),
      method = override (method a) (method b),
      jsonRequest = override (jsonRequest a) (jsonRequest b),
      jsonResponse = override (jsonResponse a) (jsonResponse b),
      url = override (url a) (url b),
      timeout = override (timeout a) (timeout b),
      otherKeys = otherKeys b @ otherKeys a\<rparr>"

text \<open>\<^verbatim>\<open>extraHeaders.map(h => headers.append(h.key, h.value))\<close>, stopping where one throws.\<close>

fun appendAll :: "headers \<Rightarrow> IExtraHeader list \<Rightarrow> jsval + headers" where
  "appendAll hs [] = Inr hs"
| "appendAll hs (h # rest) =
     (case headers_append hs (key h) (hvalue h) of
        Inl err \<Rightarrow> Inl err
      | Inr hs' \<Rightarrow> appendAll hs' rest)"

definition buildHeaders ::
  "bool field \<Rightarrow> bool field \<Rightarrow> IExtraHeader list field \<Rightarrow> jsval + headers" where
  "buildHeaders jreq jres extra =
     (case (if truthyBool jreq
            then headers_append [] ''Content-Type'' ''application/json'' else Inr []) of
        Inl err \<Rightarrow> Inl err
      | Inr h1 \<Rightarrow>
          (case (if truthyBool jres
                 then headers_append h1 ''Accept'' ''application/json'' else Inr h1) of
             Inl err \<Rightarrow> Inl err
           | Inr h2 \<Rightarrow>
               (case extra of Value hs \<Rightarrow> appendAll h2 hs | _ \<Rightarrow> Inr h2)))"

text \<open>
  The synchronous part of \<^verbatim>\<open>requestJson\<close> (lines 58 to 93, and the arguments of
  \<^verbatim>\<open>fetch\<close> and \<^verbatim>\<open>setTimeout\<close>): \<open>Inl\<close> is an exception thrown to the caller before
  any promise exists, by \<^verbatim>\<open>headers.append\<close> (line 82) or by \<^verbatim>\<open>JSON.stringify\<close>
  (line 92).
\<close>

definition buildRequest :: "(jsval \<Rightarrow> string) \<Rightarrow> IRequestParams \<Rightarrow> jsval + call" where
  "buildRequest stringify requestParams =
     (let processedParams = spread defaultRequestParams requestParams;
          m = read (method processedParams);
          b = read (body processedParams)
      in case buildHeaders (read (jsonRequest processedParams))
                (read (jsonResponse processedParams))
                (read (extraHeaders processedParams)) of
           Inl err \<Rightarrow> Inl err
         | Inr hs \<Rightarrow>
             let params = \<lparr>init_method = m, init_headers = hs, init_body = Absent\<rparr>;
                 withBody =
                   (if truthyVal b \<and> (m = Value POST \<or> m = Value PATCH \<or> m = Value DELETE)
                    then (case b of
                            Value v \<Rightarrow>
                              (case serialize stringify v of
                                 Inl err \<Rightarrow> Inl err
                               | Inr text \<Rightarrow> Inr (params\<lparr>init_body := Value text\<rparr>))
                          | _ \<Rightarrow> Inr (params\<lparr>init_body := Undefined\<rparr>))
                    else Inr params)
             in case withBody of
                  Inl err \<Rightarrow> Inl err
                | Inr params' \<Rightarrow>
                    Inr \<lparr>fetch_url = read (url processedParams), fetch_init = params',
                         timer_ms = read (timeout processedParams)\<rparr>)"

text \<open>
  The first \<^verbatim>\<open>.then\<close> callback (lines 105 to 115), the second (lines 116 to 131) and the
  \<^verbatim>\<open>.catch\<close> callback (lines 132 to 140). In the second, a status code that was never
  recorded is \<^verbatim>\<open>undefined\<close>, which no set holds and no range contains.
\<close>

definition onResponse ::
  "bool field \<Rightarrow> response \<Rightarrow> IJsonStatus \<Rightarrow> IJsonStatus \<times> payload promise" where
  "onResponse jres res statusResponse =
     (let st = statusResponse\<lparr>statusCode := Some (status res)\<rparr>
      in if truthyBool jres
         then (case json res of Inl err \<Rightarrow> (st, Inl err) | Inr j \<Rightarrow> (st, Inr (Val j)))
         else (st, Inr (Resp res)))"

definition onJson ::
  "IValidStatusCode \<Rightarrow> payload \<Rightarrow> IJsonStatus \<Rightarrow> IJsonStatus \<times> IJsonStatus promise" where
  "onJson validation js statusResponse =
     (let validStatusCode =
            (case statusCode statusResponse of
               Some sc \<Rightarrow> isValidStatusCode sc validation
             | None \<Rightarrow> False);
          st = (if validStatusCode then statusResponse\<lparr>data := Some js\<rparr>
                else statusResponse\<lparr>errorData := Some js\<rparr>)
      in (st, Inr st))"

definition onError :: "jsval \<Rightarrow> IJsonStatus \<Rightarrow> IJsonStatus \<times> IJsonStatus promise" where
  "onError err statusResponse =
     (let st = (if isNetworkError err
                then statusResponse\<lparr>networkError :=
                       Some (if err = JStr ''timeout'' then Timeout else Other)\<rparr>
                else statusResponse\<lparr>errorData := Some (Val err)\<rparr>)
      in (st, Inr st))"

text \<open>
  What a call of \<^verbatim>\<open>requestJson\<close> comes to: an exception thrown to the caller, or the
  returned promise rejected, or the returned promise fulfilled with a status object.
\<close>

datatype outcome = Throws jsval | Rejects jsval | Resolves IJsonStatus

text \<open>
  The object literal \<^verbatim>\<open>{ validStatusCodes, validStatusCodeStart, validStatusCodeEnd }\<close>
  that the second callback gives to \<^verbatim>\<open>isValidStatusCode\<close>, built from the merged
  parameters.
\<close>

definition validationOf :: "IRequestParams \<Rightarrow> IValidStatusCode" where
  "validationOf processedParams =
     \<lparr>validStatusCodes = read (validStatusCodes processedParams),
      validStatusCodeStart = read (validStatusCodeStart processedParams),
      validStatusCodeEnd = read (validStatusCodeEnd processedParams)\<rparr>"

definition requestJson :: "platform \<Rightarrow> IRequestParams \<Rightarrow> outcome" where
  "requestJson pf requestParams =
     (case buildRequest (JSON_stringify pf) requestParams of
        Inl err \<Rightarrow> Throws err
      | Inr c \<Rightarrow>
          let processedParams = spread defaultRequestParams requestParams;
              statusResponse =
                \<lparr>data = None, errorData = None, networkError = None, statusCode = None\<rparr>;
              first = thenP (statusResponse, race (settle pf c))
                        (onResponse (read (jsonResponse processedParams)));
              second = thenP first (onJson (validationOf processedParams));
              final = catchP second onError
          in (case snd final of Inl err \<Rightarrow> Rejects err | Inr st \<Rightarrow> Resolves st))"

section \<open>Example requests and platforms\<close>

text \<open>The request \<^verbatim>\<open>{ url: u }\<close>; the examples below add keys to it by record update.\<close>

definition request :: "string \<Rightarrow> IRequestParams" where
  "request u =
     \<lparr>validStatusCodes = Absent, validStatusCodeStart = Absent, validStatusCodeEnd = Absent,
      body = Absent, extraHeaders = Absent, method = Absent, jsonRequest = Absent,
      jsonResponse = Absent, url = Value u, timeout = Absent, otherKeys = []\<rparr>"

text \<open>
  \<^verbatim>\<open>JSON.stringify\<close>, tabulated at the bodies the examples send; the other platforms differ
  in what the race sees first: a response with a status and a JSON body, a response whose
  body is not JSON, a rejected \<^verbatim>\<open>fetch\<close>, or the timer.
\<close>

definition stringifyExample :: "jsval \<Rightarrow> string" where
  \<open>stringifyExample v =
     (if v = JObj [(''a'', JNum 1)] then ''{"a":1}''
      else if v = JNum 0 then ''0''
      else if v = JBool False then ''false''
      else if v = JStr [] then ''""''
      else ''null'')\<close>

definition respondWith :: "int \<Rightarrow> jsval \<Rightarrow> platform" where
  "respondWith sc j =
     \<lparr>JSON_stringify = stringifyExample,
      settle = (\<lambda>c. FetchResolved \<lparr>status = sc, json = Inr j\<rparr>)\<rparr>"

definition respondMalformed :: "int \<Rightarrow> platform" where
  "respondMalformed sc =
     \<lparr>JSON_stringify = stringifyExample,
      settle = (\<lambda>c. FetchResolved \<lparr>status = sc, json = Inl (JError ''SyntaxError'')\<rparr>)\<rparr>"

definition rejectWith :: "jsval \<Rightarrow> platform" where
  "rejectWith err = \<lparr>JSON_stringify = stringifyExample, settle = (\<lambda>c. FetchRejected err)\<rparr>"

definition timerFirst :: platform where
  "timerFirst = \<lparr>JSON_stringify = stringifyExample, settle = (\<lambda>c. TimerFired)\<rparr>"

section \<open>Requests that the platform builds\<close>

text \<open>
  An extra header that \<open>headers_append\<close> takes without throwing, a request all of whose
  extra headers are such, and a request whose body (if it has one) holds no BigInt.
\<close>

definition accepted :: "IExtraHeader \<Rightarrow> bool" where
  "accepted h = (isHeaderName (key h) \<and> isHeaderValue (normalizeValue (hvalue h)))"

definition headersAccepted :: "IRequestParams \<Rightarrow> bool" where
  "headersAccepted p = (case extraHeaders p of Value hs \<Rightarrow> list_all accepted hs | _ \<Rightarrow> True)"

definition bodySerialisable :: "IRequestParams \<Rightarrow> bool" where
  "bodySerialisable p = (case body p of Value v \<Rightarrow> \<not> hasBigInt v | _ \<Rightarrow> True)"

section \<open>Basic facts\<close>

lemmas chain_defs = requestJson_def thenP_def catchP_def race_def onResponse_def onJson_def
  onError_def Let_def

lemmas eval_defs = buildRequest_def buildHeaders_def spread_def defaultRequestParams_def
  request_def override_def read_def truthyBool_def truthyVal_def truthyNum_def headers_append_def
  isHeaderName_def isHeaderValue_def normalizeValue_def tchar_def httpWhitespace_def
  validationOf_def isValidStatusCode_def isNetworkError_def
  respondWith_def respondMalformed_def rejectWith_def timerFirst_def stringifyExample_def
  serialize_def

lemma truthyBool_read [simp]: "truthyBool (read f) = truthyBool f"
  by (cases f) (simp_all add: read_def truthyBool_def)

lemma truthyVal_read [simp]: "truthyVal (read f) = truthyVal f"
  by (cases f) (simp_all add: read_def truthyVal_def)

lemma truthyNum_read [simp]: "truthyNum (read f) = truthyNum f"
  by (cases f) (simp_all add: read_def truthyNum_def)

lemma read_eq_Value [simp]: "(read f = Value v) = (f = Value v)"
  by (cases f) (simp_all add: read_def)

lemma json_headers_ok:
  "headers_append hs ''Content-Type'' ''application/json'' = Inr (hs @ [(''Content-Type'', ''application/json'')])"
  "headers_append hs ''Accept'' ''application/json'' = Inr (hs @ [(''Accept'', ''application/json'')])"
  by (simp_all add: headers_append_def isHeaderName_def isHeaderValue_def normalizeValue_def
      tchar_def httpWhitespace_def)

lemma appendAll_accepted:
  "list_all accepted xs \<Longrightarrow>
     appendAll hs xs = Inr (hs @ map (\<lambda>h. (key h, normalizeValue (hvalue h))) xs)"
  by (induction xs arbitrary: hs) (simp_all add: headers_append_def accepted_def)

lemma appendAll_refused:
  "\<not> list_all accepted xs \<Longrightarrow> appendAll hs xs = Inl (JError ''TypeError'')"
  by (induction xs arbitrary: hs) (auto simp add: headers_append_def accepted_def)

lemma buildHeaders_accepted:
  "(case extra of Value hs \<Rightarrow> list_all accepted hs | _ \<Rightarrow> True) \<Longrightarrow>
     \<exists>hs. buildHeaders jreq jres extra = Inr hs"
  by (cases extra) (simp_all add: buildHeaders_def json_headers_ok appendAll_accepted)

lemma buildHeaders_refused:
  "\<not> (case extra of Value hs \<Rightarrow> list_all accepted hs | _ \<Rightarrow> True) \<Longrightarrow>
     buildHeaders jreq jres extra = Inl (JError ''TypeError'')"
  by (cases extra) (simp_all add: buildHeaders_def json_headers_ok appendAll_refused)

lemma extraHeaders_spread:
  "read (extraHeaders (spread defaultRequestParams p)) = read (extraHeaders p)"
  by (cases "extraHeaders p") (simp_all add: spread_def defaultRequestParams_def override_def read_def)

lemma buildRequest_accepted:
  assumes "headersAccepted p" and "bodySerialisable p"
  shows "\<exists>c. buildRequest str p = Inr c"
proof -
  have "case read (extraHeaders p) of Value hs \<Rightarrow> list_all accepted hs | _ \<Rightarrow> True"
    using assms(1) by (cases "extraHeaders p") (simp_all add: headersAccepted_def read_def)
  then obtain hs where
    "buildHeaders (read (jsonRequest (spread defaultRequestParams p)))
       (read (jsonResponse (spread defaultRequestParams p)))
       (read (extraHeaders (spread defaultRequestParams p))) = Inr hs"
    using buildHeaders_accepted extraHeaders_spread by metis
  moreover have "case read (body (spread defaultRequestParams p)) of
      Value v \<Rightarrow> \<not> hasBigInt v | _ \<Rightarrow> True"
    using assms(2)
    by (cases "body p")
       (simp_all add: bodySerialisable_def spread_def defaultRequestParams_def override_def
          read_def)
  ultimately show ?thesis
    by (cases "read (body (spread defaultRequestParams p))")
       (simp_all add: buildRequest_def Let_def serialize_def read_def)
qed

lemma buildRequest_refused:
  assumes "\<not> headersAccepted p"
  shows "buildRequest str p = Inl (JError ''TypeError'')"
proof -
  have "\<not> (case read (extraHeaders p) of Value hs \<Rightarrow> list_all accepted hs | _ \<Rightarrow> True)"
    using assms by (cases "extraHeaders p") (simp_all add: headersAccepted_def read_def)
  then have
    "buildHeaders (read (jsonRequest (spread defaultRequestParams p)))
       (read (jsonResponse (spread defaultRequestParams p)))
       (read (extraHeaders (spread defaultRequestParams p))) = Inl (JError ''TypeError'')"
    using buildHeaders_refused extraHeaders_spread by metis
  then show ?thesis
    by (simp add: buildRequest_def Let_def)
qed

lemma requestJson_timer:
  "buildRequest (JSON_stringify pf) p = Inr c \<Longrightarrow> settle pf c = TimerFired \<Longrightarrow>
     requestJson pf p = Resolves \<lparr>data = None, errorData = None,
        networkError = Some Timeout, statusCode = None\<rparr>"
  by (simp add: chain_defs isNetworkError_def)

lemma requestJson_rejected:
  "buildRequest (JSON_stringify pf) p = Inr c \<Longrightarrow> settle pf c = FetchRejected err \<Longrightarrow>
     requestJson pf p = Resolves
       (if isNetworkError err
        then \<lparr>data = None, errorData = None,
              networkError = Some (if err = JStr ''timeout'' then Timeout else Other),
              statusCode = None\<rparr>
        else \<lparr>data = None, errorData = Some (Val err), networkError = None,
              statusCode = None\<rparr>)"
  by (simp add: chain_defs)

lemma requestJson_unparsed:
  "buildRequest (JSON_stringify pf) p = Inr c \<Longrightarrow> settle pf c = FetchResolved res \<Longrightarrow>
   truthyBool (jsonResponse (spread defaultRequestParams p)) \<Longrightarrow> json res = Inl err \<Longrightarrow>
     requestJson pf p = Resolves
       (if isNetworkError err
        then \<lparr>data = None, errorData = None,
              networkError = Some (if err = JStr ''timeout'' then Timeout else Other),
              statusCode = Some (status res)\<rparr>
        else \<lparr>data = None, errorData = Some (Val err), networkError = None,
              statusCode = Some (status res)\<rparr>)"
  by (simp add: chain_defs)

lemma requestJson_parsed:
  "buildRequest (JSON_stringify pf) p = Inr c \<Longrightarrow> settle pf c = FetchResolved res \<Longrightarrow>
   truthyBool (jsonResponse (spread defaultRequestParams p)) \<Longrightarrow> json res = Inr j \<Longrightarrow>
     requestJson pf p = Resolves
       (if isValidStatusCode (status res) (validationOf (spread defaultRequestParams p))
        then \<lparr>data = Some (Val j), errorData = None, networkError = None,
              statusCode = Some (status res)\<rparr>
        else \<lparr>data = None, errorData = Some (Val j), networkError = None,
              statusCode = Some (status res)\<rparr>)"
  by (simp add: chain_defs)

lemma requestJson_raw:
  "buildRequest (JSON_stringify pf) p = Inr c \<Longrightarrow> settle pf c = FetchResolved res \<Longrightarrow>
   \<not> truthyBool (jsonResponse (spread defaultRequestParams p)) \<Longrightarrow>
     requestJson pf p = Resolves
       (if isValidStatusCode (status res) (validationOf (spread defaultRequestParams p))
        then \<lparr>data = Some (Resp res), errorData = None, networkError = None,
              statusCode = Some (status res)\<rparr>
        else \<lparr>data = None, errorData = Some (Resp res), networkError = None,
              statusCode = Some (status res)\<rparr>)"
  by (simp add: chain_defs)


lemma find_eq_mem: "(\<exists>c. List.find (\<lambda>c. c = sc) codes = Some c) = (sc \<in> set codes)"
  by (induction codes) auto

lemma body_spread: "read (body (spread defaultRequestParams p)) = read (body p)"
  by (cases "body p") (simp_all add: spread_def defaultRequestParams_def override_def read_def)

lemma method_spread:
  "read (method (spread defaultRequestParams p)) =
     (case method p of Absent \<Rightarrow> Value GET | Undefined \<Rightarrow> Undefined | Value m \<Rightarrow> Value m)"
  by (cases "method p") (simp_all add: spread_def defaultRequestParams_def override_def read_def)

lemma timeout_spread:
  "read (timeout (spread defaultRequestParams p)) =
     (case timeout p of Absent \<Rightarrow> Value 10000 | Undefined \<Rightarrow> Undefined | Value t \<Rightarrow> Value t)"
  by (cases "timeout p") (simp_all add: spread_def defaultRequestParams_def override_def read_def)

lemma override_if: "override d c = (if c = Absent then d else c)"
  by (cases c) (simp_all add: override_def)

lemma buildRequest_Inr:
  assumes "buildRequest str p = Inr c"
  shows "\<exists>hs. c =
    \<lparr>fetch_url = read (url (spread defaultRequestParams p)),
     fetch_init =
       (if truthyVal (read (body (spread defaultRequestParams p)))
           \<and> (read (method (spread defaultRequestParams p)) = Value POST
              \<or> read (method (spread defaultRequestParams p)) = Value PATCH
              \<or> read (method (spread defaultRequestParams p)) = Value DELETE)
        then \<lparr>init_method = read (method (spread defaultRequestParams p)), init_headers = hs,
               init_body = (case read (body (spread defaultRequestParams p)) of
                              Value v \<Rightarrow> Value (str v) | _ \<Rightarrow> Undefined)\<rparr>
        else \<lparr>init_method = read (method (spread defaultRequestParams p)), init_headers = hs,
               init_body = Absent\<rparr>),
     timer_ms = read (timeout (spread defaultRequestParams p))\<rparr>"
proof (cases "buildHeaders (read (jsonRequest (spread defaultRequestParams p)))
                (read (jsonResponse (spread defaultRequestParams p)))
                (read (extraHeaders (spread defaultRequestParams p)))")
  case (Inl err)
  with assms show ?thesis
    unfolding buildRequest_def Let_def by simp
next
  case (Inr hs)
  with assms have "c =
    \<lparr>fetch_url = read (url (spread defaultRequestParams p)),
     fetch_init =
       (if truthyVal (read (body (spread defaultRequestParams p)))
           \<and> (read (method (spread defaultRequestParams p)) = Value POST
              \<or> read (method (spread defaultRequestParams p)) = Value PATCH
              \<or> read (method (spread defaultRequestParams p)) = Value DELETE)
        then \<lparr>init_method = read (method (spread defaultRequestParams p)), init_headers = hs,
               init_body = (case read (body (spread defaultRequestParams p)) of
                              Value v \<Rightarrow> Value (str v) | _ \<Rightarrow> Undefined)\<rparr>
        else \<lparr>init_method = read (method (spread defaultRequestParams p)), init_headers = hs,
               init_body = Absent\<rparr>),
     timer_ms = read (timeout (spread defaultRequestParams p))\<rparr>"
    unfolding buildRequest_def Let_def serialize_def
    by (cases "read (body (spread defaultRequestParams p))")
       (auto simp del: truthyVal_read read_eq_Value split: if_splits)
  then show ?thesis by blast
qed

lemma buildRequest_body:
  assumes "buildRequest str p = Inr c"
  shows "init_body (fetch_init c) =
    (if truthyVal (body p) \<and> (method p = Value POST \<or> method p = Value PATCH \<or> method p = Value DELETE)
     then (case body p of Value v \<Rightarrow> Value (str v) | _ \<Rightarrow> Undefined)
     else Absent)"
proof -
  obtain hs where c: "c =
    \<lparr>fetch_url = read (url (spread defaultRequestParams p)),
     fetch_init =
       (if truthyVal (read (body (spread defaultRequestParams p)))
           \<and> (read (method (spread defaultRequestParams p)) = Value POST
              \<or> read (method (spread defaultRequestParams p)) = Value PATCH
              \<or> read (method (spread defaultRequestParams p)) = Value DELETE)
        then \<lparr>init_method = read (method (spread defaultRequestParams p)), init_headers = hs,
               init_body = (case read (body (spread defaultRequestParams p)) of
                              Value v \<Rightarrow> Value (str v) | _ \<Rightarrow> Undefined)\<rparr>
        else \<lparr>init_method = read (method (spread defaultRequestParams p)), init_headers = hs,
               init_body = Absent\<rparr>),
     timer_ms = read (timeout (spread defaultRequestParams p))\<rparr>"
    using buildRequest_Inr [OF assms] by blast
  show ?thesis
    unfolding c body_spread method_spread
    by (cases "method p"; cases "body p") (simp_all add: read_def truthyVal_def)
qed

lemma buildRequest_timer:
  assumes "buildRequest str p = Inr c"
  shows "timer_ms c = read (timeout (spread defaultRequestParams p))"
  using buildRequest_Inr [OF assms] by auto

text \<open>
  Once the request is built, the chain \<^verbatim>\<open>.then(...).then(...).catch(...)\<close> always ends
  fulfilled: the promise that \<^verbatim>\<open>requestJson\<close> returns is never rejected.
\<close>

lemma requestJson_built_resolves:
  assumes "buildRequest (JSON_stringify pf) p = Inr c"
  shows "\<exists>st. requestJson pf p = Resolves st"
proof (cases "settle pf c")
  case TimerFired
  with assms show ?thesis by (simp add: requestJson_timer)
next
  case (FetchRejected err)
  with assms show ?thesis by (simp add: requestJson_rejected)
next
  case (FetchResolved res)
  show ?thesis
  proof (cases "truthyBool (jsonResponse (spread defaultRequestParams p))")
    case False
    with assms FetchResolved show ?thesis by (simp add: requestJson_raw)
  next
    case True
    show ?thesis
    proof (cases "json res")
      case (Inl err)
      with assms FetchResolved True show ?thesis by (simp add: requestJson_unparsed)
    next
      case (Inr j)
      with assms FetchResolved True show ?thesis by (simp add: requestJson_parsed)
    qed
  qed
qed

section \<open>The claims\<close>

text \<open>
  C1 says that \<^verbatim>\<open>requestJson\<close> never throws to its caller. The code does throw: the
  header set and the body are built before \<^verbatim>\<open>Promise.race\<close> and its \<^verbatim>\<open>.catch\<close>
  exist, so the \<^verbatim>\<open>TypeError\<close> of \<^verbatim>\<open>Headers.append\<close> for an extra header whose name is
  not an HTTP token (here a name with a space), and the \<^verbatim>\<open>TypeError\<close> of
  \<^verbatim>\<open>JSON.stringify\<close> for a POST body that is a BigInt, both reach the caller as
  exceptions and no status object is returned.
\<close>

theorem requestJson_throws:
  "requestJson timerFirst
     ((request ''https://x/y'')\<lparr>extraHeaders :=
         Value [\<lparr>key = ''Content Type'', hvalue = ''text/plain''\<rparr>]\<rparr>)
   = Throws (JError ''TypeError'')
   \<and> requestJson timerFirst
     ((request ''https://x/y'')\<lparr>body := Value (JBigInt 1), method := Value POST\<rparr>)
   = Throws (JError ''TypeError'')"
  by (simp add: requestJson_def eval_defs)

text \<open>
  C2, as stated, fails: a response with status 200, inside the default range 200 to 299,
  and a JSON body, for a request with \<open>jsonResponse\<close> left at its default, is classified
  as an error when the request gives \<^verbatim>\<open>validStatusCodes = [201]\<close>.
\<close>

theorem requestJson_set_priority_counterexample:
  "requestJson (respondWith 200 (JObj [(''ok'', JBool True)]))
     ((request ''https://x/y'')\<lparr>validStatusCodes := Value [201]\<rparr>)
   = Resolves \<lparr>data = None, errorData = Some (Val (JObj [(''ok'', JBool True)])),
       networkError = None, statusCode = Some 200\<rparr>"
  by (simp add: chain_defs eval_defs)

text \<open>
  C2, amended. For every request that gives no \<open>validStatusCodes\<close> set and whose merged
  range bounds (defaults 200 and 299) are both non-zero: when the transport's response wins
  the race with a status inside that range, its body parses as JSON, and \<open>jsonResponse\<close>
  is true (given as true, or left to the default), the result has \<open>data\<close> equal to the
  parsed body, \<open>statusCode\<close> equal to the response's status, and \<open>errorData\<close> and
  \<open>networkError\<close> unset. The witness is the worked example: POST with body
  \<^verbatim>\<open>{a:1}\<close> and range 200 to 299, answered by 201 with body \<^verbatim>\<open>{"ok":true}\<close>.
\<close>

theorem requestJson_success:
  assumes "buildRequest (JSON_stringify pf) p = Inr c"
    and "settle pf c = FetchResolved res"
    and "json res = Inr j"
    and "jsonResponse p = Absent \<or> jsonResponse p = Value True"
    and "\<forall>codes. validStatusCodes p \<noteq> Value codes"
    and "validStatusCodeStart (spread defaultRequestParams p) = Value lo"
    and "validStatusCodeEnd (spread defaultRequestParams p) = Value hi"
    and "lo \<noteq> 0" and "hi \<noteq> 0"
    and "lo \<le> status res" and "status res \<le> hi"
  shows "requestJson pf p = Resolves \<lparr>data = Some (Val j), errorData = None,
           networkError = None, statusCode = Some (status res)\<rparr>"
proof -
  have jres: "truthyBool (jsonResponse (spread defaultRequestParams p))"
    using assms(4)
    by (auto simp add: spread_def defaultRequestParams_def override_def truthyBool_def)
  have "\<forall>codes. validStatusCodes (spread defaultRequestParams p) \<noteq> Value codes"
    using assms(5)
    by (cases "validStatusCodes p")
       (simp_all add: spread_def defaultRequestParams_def override_def)
  then have "isValidStatusCode (status res) (validationOf (spread defaultRequestParams p))"
    using assms(6-11)
    by (cases "validStatusCodes (spread defaultRequestParams p)")
       (simp_all add: isValidStatusCode_def validationOf_def read_def truthyNum_def)
  with assms(1-3) jres show ?thesis
    by (simp add: requestJson_parsed)
qed

theorem requestJson_success_witness:
  "requestJson (respondWith 201 (JObj [(''ok'', JBool True)]))
     ((request ''https://x/y'')\<lparr>method := Value POST, body := Value (JObj [(''a'', JNum 1)]),
        validStatusCodeStart := Value 200, validStatusCodeEnd := Value 299\<rparr>)
   = Resolves \<lparr>data = Some (Val (JObj [(''ok'', JBool True)])), errorData = None,
       networkError = None, statusCode = Some 201\<rparr>"
proof -
  obtain c where b: "buildRequest (JSON_stringify (respondWith 201 (JObj [(''ok'', JBool True)])))
      ((request ''https://x/y'')\<lparr>method := Value POST, body := Value (JObj [(''a'', JNum 1)]),
        validStatusCodeStart := Value 200, validStatusCodeEnd := Value 299\<rparr>) = Inr c"
    using buildRequest_accepted [of "(request ''https://x/y'')\<lparr>method := Value POST,
        body := Value (JObj [(''a'', JNum 1)]),
        validStatusCodeStart := Value 200, validStatusCodeEnd := Value 299\<rparr>"]
    by (auto simp add: headersAccepted_def bodySerialisable_def request_def)
  have s: "settle (respondWith 201 (JObj [(''ok'', JBool True)])) c
      = FetchResolved \<lparr>status = 201, json = Inr (JObj [(''ok'', JBool True)])\<rparr>"
    by (simp add: respondWith_def)
  from requestJson_success [OF b s, of "JObj [(''ok'', JBool True)]" 200 299]
  show ?thesis
    by (simp add: request_def spread_def defaultRequestParams_def override_def)
qed

text \<open>
  C3. When \<open>validStatusCodes\<close> is provided, a status code is valid iff it is a member of
  that set, whatever the range bounds are: with \<^verbatim>\<open>[201]\<close>, 201 is valid and 200 is not,
  although 200 lies in the range 200 to 299.
\<close>

theorem isValidStatusCode_set:
  "isValidStatusCode sc \<lparr>validStatusCodes = Value codes,
      validStatusCodeStart = s, validStatusCodeEnd = e\<rparr> = (sc \<in> set codes)"
  by (simp add: isValidStatusCode_def find_eq_mem)

theorem isValidStatusCode_set_witness:
  "isValidStatusCode 201 \<lparr>validStatusCodes = Value [201],
      validStatusCodeStart = Value 200, validStatusCodeEnd = Value 299\<rparr>
   \<and> \<not> isValidStatusCode 200 \<lparr>validStatusCodes = Value [201],
      validStatusCodeStart = Value 200, validStatusCodeEnd = Value 299\<rparr>"
  using isValidStatusCode_set [of 201 "[201]" "Value 200" "Value 299"]
        isValidStatusCode_set [of 200 "[201]" "Value 200" "Value 299"]
  by simp

text \<open>
  C4. When no \<open>validStatusCodes\<close> set is given (the key is absent or undefined), a status
  code is valid iff both bounds are defined and non-zero and the code lies between them;
  with a bound absent, undefined or 0, every status code is invalid.
\<close>

theorem isValidStatusCode_range:
  assumes "\<forall>codes. vs \<noteq> Value codes"
  shows "isValidStatusCode sc \<lparr>validStatusCodes = vs,
      validStatusCodeStart = s, validStatusCodeEnd = e\<rparr>
    = (\<exists>lo hi. s = Value lo \<and> e = Value hi \<and> lo \<noteq> 0 \<and> hi \<noteq> 0 \<and> lo \<le> sc \<and> sc \<le> hi)"
  using assms
  by (cases vs; cases s; cases e) (auto simp add: isValidStatusCode_def truthyNum_def)

theorem isValidStatusCode_range_witness:
  "isValidStatusCode 204 \<lparr>validStatusCodes = Absent,
      validStatusCodeStart = Value 200, validStatusCodeEnd = Value 299\<rparr>
   \<and> \<not> isValidStatusCode 300 \<lparr>validStatusCodes = Undefined,
      validStatusCodeStart = Value 200, validStatusCodeEnd = Value 299\<rparr>
   \<and> \<not> isValidStatusCode 204 \<lparr>validStatusCodes = Absent,
      validStatusCodeStart = Value 0, validStatusCodeEnd = Value 299\<rparr>
   \<and> \<not> isValidStatusCode 204 \<lparr>validStatusCodes = Absent,
      validStatusCodeStart = Value 200, validStatusCodeEnd = Absent\<rparr>"
  using isValidStatusCode_range [of Absent 204 "Value 200" "Value 299"]
    isValidStatusCode_range [of Undefined 300 "Value 200" "Value 299"]
    isValidStatusCode_range [of Absent 204 "Value 0" "Value 299"]
    isValidStatusCode_range [of Absent 204 "Value 200" Absent]
  by simp

text \<open>
  C5. When the timer fires before the transport settles, the promise is fulfilled with a
  status whose \<open>networkError\<close> is \<open>timeout\<close> and whose \<open>data\<close>, \<open>errorData\<close> and
  \<open>statusCode\<close> are unset.
\<close>

theorem requestJson_timeout:
  assumes "buildRequest (JSON_stringify pf) p = Inr c"
    and "settle pf c = TimerFired"
  shows "requestJson pf p = Resolves \<lparr>data = None, errorData = None,
           networkError = Some Timeout, statusCode = None\<rparr>"
  using assms by (simp add: chain_defs isNetworkError_def)

theorem requestJson_timeout_witness:
  "requestJson timerFirst (request ''https://x/y'')
   = Resolves \<lparr>data = None, errorData = None, networkError = Some Timeout, statusCode = None\<rparr>"
  using requestJson_timeout [of timerFirst "request ''https://x/y''"
    "\<lparr>fetch_url = Value ''https://x/y'',
      fetch_init = \<lparr>init_method = Value GET,
        init_headers = [(''Content-Type'', ''application/json''), (''Accept'', ''application/json'')],
        init_body = Absent\<rparr>,
      timer_ms = Value 10000\<rparr>"]
  by (simp add: eval_defs)

text \<open>
  C6, as stated, fails: a request with method POST and the body \<^verbatim>\<open>0\<close>, which is
  present, goes out with no body attached.
\<close>

theorem falsy_body_counterexample:
  "buildRequest stringifyExample
     ((request ''https://x/y'')\<lparr>body := Value (JNum 0), method := Value POST\<rparr>)
   = Inr \<lparr>fetch_url = Value ''https://x/y'',
      fetch_init = \<lparr>init_method = Value POST,
        init_headers = [(''Content-Type'', ''application/json''), (''Accept'', ''application/json'')],
        init_body = Absent\<rparr>,
      timer_ms = Value 10000\<rparr>"
  by (simp add: eval_defs)

text \<open>
  C6, amended. A body is JSON-serialised and attached to the outgoing call iff the body is
  truthy and the method is POST, PATCH or DELETE; with any other method (GET, PUT, or
  none given, which the merge turns into GET) no body is attached.
\<close>

theorem body_attached_iff:
  assumes "buildRequest str p = Inr c"
  shows "init_body (fetch_init c) =
    (case body p of
       Value v \<Rightarrow>
         if truthy v \<and> (method p = Value POST \<or> method p = Value PATCH \<or> method p = Value DELETE)
         then Value (str v) else Absent
     | _ \<Rightarrow> Absent)"
  using buildRequest_body [OF assms]
  by (cases "body p") (simp_all add: truthyVal_def)

theorem body_attached_iff_witness:
  "\<exists>c. buildRequest stringifyExample
          ((request ''https://x/y'')\<lparr>body := Value (JObj [(''a'', JNum 1)]),
             method := Value PATCH\<rparr>) = Inr c
       \<and> init_body (fetch_init c) = Value (stringifyExample (JObj [(''a'', JNum 1)]))"
proof -
  obtain c where b: "buildRequest stringifyExample
      ((request ''https://x/y'')\<lparr>body := Value (JObj [(''a'', JNum 1)]),
         method := Value PATCH\<rparr>) = Inr c"
    using buildRequest_accepted [of "(request ''https://x/y'')\<lparr>body :=
      Value (JObj [(''a'', JNum 1)]), method := Value PATCH\<rparr>" stringifyExample]
    by (auto simp add: headersAccepted_def bodySerialisable_def request_def)
  from body_attached_iff [OF b]
  have "init_body (fetch_init c) = Value (stringifyExample (JObj [(''a'', JNum 1)]))"
    by (simp add: request_def)
  with b show ?thesis by blast
qed

text \<open>
  C7, as stated, fails: a caller who gives \<^verbatim>\<open>jsonRequest: undefined\<close> gets
  \<^verbatim>\<open>undefined\<close> in the merged parameters, not the default \<^verbatim>\<open>true\<close>, and the request
  goes out without the \<^verbatim>\<open>Content-Type\<close> header that the default would add.
\<close>

theorem spread_undefined_counterexample:
  "jsonRequest defaultRequestParams = Value True
   \<and> jsonRequest (spread defaultRequestParams
        ((request ''https://x/y'')\<lparr>jsonRequest := Undefined\<rparr>)) = Undefined
   \<and> buildRequest stringifyExample ((request ''https://x/y'')\<lparr>jsonRequest := Undefined\<rparr>)
     = Inr \<lparr>fetch_url = Value ''https://x/y'',
       fetch_init = \<lparr>init_method = Value GET,
         init_headers = [(''Accept'', ''application/json'')], init_body = Absent\<rparr>,
       timer_ms = Value 10000\<rparr>"
  by (simp add: eval_defs)

text \<open>
  C7, amended. Merging with the defaults is key-wise: every key that the caller's object
  has overrides the default with the caller's value, also when that value is
  \<^verbatim>\<open>undefined\<close>; the default is used exactly for the keys the caller's object lacks.
\<close>

theorem spread_keywise:
  "validStatusCodes (spread a b)
     = (if validStatusCodes b = Absent then validStatusCodes a else validStatusCodes b)
   \<and> validStatusCodeStart (spread a b)
     = (if validStatusCodeStart b = Absent then validStatusCodeStart a else validStatusCodeStart b)
   \<and> validStatusCodeEnd (spread a b)
     = (if validStatusCodeEnd b = Absent then validStatusCodeEnd a else validStatusCodeEnd b)
   \<and> body (spread a b) = (if body b = Absent then body a else body b)
   \<and> extraHeaders (spread a b)
     = (if extraHeaders b = Absent then extraHeaders a else extraHeaders b)
   \<and> method (spread a b) = (if method b = Absent then method a else method b)
   \<and> jsonRequest (spread a b) = (if jsonRequest b = Absent then jsonRequest a else jsonRequest b)
   \<and> jsonResponse (spread a b)
     = (if jsonResponse b = Absent then jsonResponse a else jsonResponse b)
   \<and> url (spread a b) = (if url b = Absent then url a else url b)
   \<and> timeout (spread a b) = (if timeout b = Absent then timeout a else timeout b)"
  by (simp add: spread_def override_if)

theorem spread_keywise_witness:
  "method (spread defaultRequestParams
      ((request ''https://x/y'')\<lparr>method := Value POST, jsonRequest := Undefined\<rparr>)) = Value POST
   \<and> jsonRequest (spread defaultRequestParams
      ((request ''https://x/y'')\<lparr>method := Value POST, jsonRequest := Undefined\<rparr>)) = Undefined
   \<and> jsonResponse (spread defaultRequestParams
      ((request ''https://x/y'')\<lparr>method := Value POST, jsonRequest := Undefined\<rparr>)) = Value True"
  using spread_keywise [of defaultRequestParams
    "(request ''https://x/y'')\<lparr>method := Value POST, jsonRequest := Undefined\<rparr>"]
  by (simp add: request_def defaultRequestParams_def)

text \<open>
  C8. Every status object that \<^verbatim>\<open>requestJson\<close> resolves to has at most one of \<open>data\<close>,
  \<open>errorData\<close> and \<open>networkError\<close> populated, and has \<open>statusCode\<close> set to the
  response's status whenever the race was won by a response, also when the JSON parsing
  or the status validation then makes the call an error.
\<close>

theorem status_invariant:
  assumes "requestJson pf p = Resolves st"
  shows "(data st = None \<or> errorData st = None)
    \<and> (data st = None \<or> networkError st = None)
    \<and> (errorData st = None \<or> networkError st = None)
    \<and> (\<forall>c res. buildRequest (JSON_stringify pf) p = Inr c \<and> settle pf c = FetchResolved res
          \<longrightarrow> statusCode st = Some (status res))"
proof -
  obtain c where c: "buildRequest (JSON_stringify pf) p = Inr c"
    using assms by (cases "buildRequest (JSON_stringify pf) p") (simp_all add: requestJson_def)
  show ?thesis
  proof (cases "settle pf c")
    case TimerFired
    with c assms show ?thesis by (auto simp add: requestJson_timer)
  next
    case (FetchRejected err)
    with c assms show ?thesis by (auto simp add: requestJson_rejected split: if_splits)
  next
    case (FetchResolved res)
    show ?thesis
    proof (cases "truthyBool (jsonResponse (spread defaultRequestParams p))")
      case False
      with c FetchResolved assms show ?thesis
        by (auto simp add: requestJson_raw split: if_splits)
    next
      case True
      show ?thesis
      proof (cases "json res")
        case (Inl err)
        with c FetchResolved True assms show ?thesis
          by (auto simp add: requestJson_unparsed split: if_splits)
      next
        case (Inr j)
        with c FetchResolved True assms show ?thesis
          by (auto simp add: requestJson_parsed split: if_splits)
      qed
    qed
  qed
qed

theorem status_invariant_witness:
  "\<exists>st. requestJson (respondMalformed 502) (request ''https://x/y'') = Resolves st
        \<and> data st = None \<and> networkError st = None \<and> statusCode st = Some 502"
proof -
  have r: "requestJson (respondMalformed 502) (request ''https://x/y'')
     = Resolves \<lparr>data = None, errorData = Some (Val (JError ''SyntaxError'')),
         networkError = None, statusCode = Some 502\<rparr>"
    by (simp add: chain_defs eval_defs)
  obtain c where b:
    "buildRequest (JSON_stringify (respondMalformed 502)) (request ''https://x/y'') = Inr c"
    using buildRequest_accepted [of "request ''https://x/y''"]
    by (auto simp add: headersAccepted_def bodySerialisable_def request_def)
  have s: "settle (respondMalformed 502) c
      = FetchResolved \<lparr>status = 502, json = Inl (JError ''SyntaxError'')\<rparr>"
    by (simp add: respondMalformed_def)
  from status_invariant [OF r] b s
  have "statusCode \<lparr>data = None, errorData = Some (Val (JError ''SyntaxError'')),
         networkError = None, statusCode = Some 502\<rparr> = Some 502"
    and "data \<lparr>data = None, errorData = Some (Val (JError ''SyntaxError'')),
         networkError = None, statusCode = Some 502\<rparr> = None"
    and "networkError \<lparr>data = None, errorData = Some (Val (JError ''SyntaxError'')),
         networkError = None, statusCode = Some 502\<rparr> = None"
    by simp_all
  with r show ?thesis by simp
qed

text \<open>
  C9, as stated, fails: \<^verbatim>\<open>requestJson\<close> never reads a key \<^verbatim>\<open>timeoutMs\<close>; a caller
  who gives \<^verbatim>\<open>timeoutMs: 5000\<close> gets the timer of 10000 milliseconds.
\<close>

theorem timeoutMs_ignored_counterexample:
  "buildRequest stringifyExample
     ((request ''https://x/y'')\<lparr>otherKeys := [(''timeoutMs'', JNum 5000)]\<rparr>)
   = Inr \<lparr>fetch_url = Value ''https://x/y'',
      fetch_init = \<lparr>init_method = Value GET,
        init_headers = [(''Content-Type'', ''application/json''), (''Accept'', ''application/json'')],
        init_body = Absent\<rparr>,
      timer_ms = Value 10000\<rparr>"
  by (simp add: eval_defs)

text \<open>
  C9, amended. The duration given to the timer is the property \<^verbatim>\<open>timeout\<close> of the merged
  parameters: 10000 milliseconds when the caller's object has no key \<^verbatim>\<open>timeout\<close> (the
  declared parameter type has none), and otherwise the caller's value under that key.
\<close>

theorem timer_duration:
  assumes "buildRequest str p = Inr c"
  shows "timer_ms c =
    (case timeout p of Absent \<Rightarrow> Value 10000 | Undefined \<Rightarrow> Undefined | Value t \<Rightarrow> Value t)"
  using buildRequest_timer [OF assms] by (simp add: timeout_spread)

theorem timer_duration_witness:
  "\<exists>c. buildRequest stringifyExample ((request ''https://x/y'')\<lparr>timeout := Value 2500\<rparr>)
          = Inr c
       \<and> timer_ms c = Value 2500"
proof -
  obtain c where b:
    "buildRequest stringifyExample ((request ''https://x/y'')\<lparr>timeout := Value 2500\<rparr>) = Inr c"
    using buildRequest_accepted [of "(request ''https://x/y'')\<lparr>timeout := Value 2500\<rparr>"
      stringifyExample]
    by (auto simp add: headersAccepted_def bodySerialisable_def request_def)
  from timer_duration [OF b] have "timer_ms c = Value 2500"
    by (simp add: request_def)
  with b show ?thesis by blast
qed

text \<open>
  C10. With method POST, PATCH or DELETE and a body that is defined but falsy (\<^verbatim>\<open>0\<close>, the
  empty string, \<^verbatim>\<open>false\<close>, \<^verbatim>\<open>null\<close>), no body is attached to the outgoing call: the
  condition is the truthiness of the body, not its presence.
\<close>

theorem falsy_body_not_attached:
  assumes "buildRequest str p = Inr c"
    and "body p = Value v"
    and "\<not> truthy v"
    and "method p = Value POST \<or> method p = Value PATCH \<or> method p = Value DELETE"
  shows "init_body (fetch_init c) = Absent"
  using buildRequest_body [OF assms(1)] assms(2,3)
  by (simp add: truthyVal_def)

theorem falsy_body_not_attached_witness:
  "\<exists>c. buildRequest stringifyExample
          ((request ''https://x/y'')\<lparr>body := Value (JStr []), method := Value DELETE\<rparr>)
          = Inr c
       \<and> init_body (fetch_init c) = Absent"
proof -
  obtain c where b: "buildRequest stringifyExample
      ((request ''https://x/y'')\<lparr>body := Value (JStr []), method := Value DELETE\<rparr>) = Inr c"
    using buildRequest_accepted [of "(request ''https://x/y'')\<lparr>body := Value (JStr []),
      method := Value DELETE\<rparr>" stringifyExample]
    by (auto simp add: headersAccepted_def bodySerialisable_def request_def)
  from falsy_body_not_attached [OF b, of "JStr []"]
  have "init_body (fetch_init c) = Absent"
    by (simp add: request_def)
  with b show ?thesis by blast
qed

end
